theory Spec2Isabelle
  imports Main
begin

section \<open>Data model\<close>

text \<open>
  Modelled from the spec: the enumeration \<open>RollbackMode\<close> is declared in the
  bootloader configuration header, not in \<open>bootloader.cc\<close>. The spec lists its four
  modes (None, UbootGeneric, UbootMasked, the vendor secure-boot variant
  \<open>kFioVB\<close>); the names are the ones \<open>bootloader.cc\<close> switches over. A C++ enum
  object can hold a value that is none of its enumerators, which is what the
  \<open>default:\<close> arms of the switches are for: \<open>kUnrecognized n\<close> stands for such a value.
\<close>

datatype RollbackMode =
    kBootloaderNone
  | kUbootGeneric
  | kUbootMasked
  | kFioVB
  | kUnrecognized nat

text \<open>
  Modelled from the spec: \<open>BootloaderConfig\<close> is declared in the same header; these
  are the four fields the constructor and the methods read.
\<close>

record BootloaderConfig =
  rollback_mode :: RollbackMode
  reboot_sentinel_dir :: string
  reboot_sentinel_name :: string
  reboot_command :: string

text \<open>
  The data members of class \<open>Bootloader\<close>. The source spells them with a trailing
  underscore (\<open>config_\<close>, \<open>reboot_sentinel_\<close>, \<open>reboot_command_\<close>,
  \<open>reboot_detect_supported_\<close>), which is not a legal name here, hence the suffix \<open>m\<close>.
  The reference \<open>storage_\<close> is the durable flag store; its content lives in the world
  below.
\<close>

record Bootloader =
  config_m :: BootloaderConfig
  reboot_sentinel_m :: string
  reboot_command_m :: string
  reboot_detect_supported_m :: bool

text \<open>
  Modelled from the spec: \<open>Uptane::Target\<close> is declared in the Uptane metadata
  headers; \<open>installNotify\<close> only asks it for its content hash.
\<close>

record Target =
  sha256Hash :: string

datatype exception = NotImplementedException

datatype severity = Info | Warning | Error

text \<open>
  Everything a method does to the outside is recorded, in the order in which it happens:
  writes to the filesystem, calls that change the durable flag store, commands handed to
  \<open>Utils::shell\<close>, and the three system calls of \<open>reboot\<close>.
\<close>

datatype effect =
    WriteFile string string
  | RemoveFile string
  | StoreNeedReboot
  | ClearNeedReboot
  | Shell string
  | SetUid nat
  | Sync
  | System string

text \<open>
  The world outside the object: the durable need-reboot flag kept by the storage, the
  files on disk (path to content), the effects so far and the log lines so far.
\<close>

record world =
  need_reboot :: bool
  files :: "string \<rightharpoonup> string"
  effects :: "effect list"
  logs :: "(severity \<times> string) list"

text \<open>
  The command executor behind \<open>Utils::shell(command, &sink)\<close>, a function of the
  utilities component: given the commands already run, the command and the current
  content of the output buffer, it yields the exit status and the new content of the
  buffer. Nothing is assumed about it.
\<close>

type_synonym executor = "string list \<Rightarrow> string \<Rightarrow> string \<Rightarrow> int \<times> string"

text \<open>
  The operating system as \<open>reboot\<close> sees it: the result of \<open>setuid(uid)\<close> and the
  status \<open>system(command)\<close> returns.
\<close>

record os =
  setuid :: "nat \<Rightarrow> int"
  system :: "string \<Rightarrow> int"

section \<open>External collaborators\<close>

definition LOG :: "severity \<Rightarrow> string \<Rightarrow> world \<Rightarrow> world" where
  "LOG sev msg w = w\<lparr>logs := logs w @ [(sev, msg)]\<rparr>"

definition do_effect :: "effect \<Rightarrow> world \<Rightarrow> world" where
  "do_effect e w = w\<lparr>effects := effects w @ [e]\<rparr>"

text \<open>
  Modelled from the spec: the durable flag store (\<open>INvStorage\<close>, implemented in the
  storage component) with the interface the spec gives it: \<open>loadNeedReboot\<close> reads the
  flag, \<open>storeNeedReboot\<close> sets it, \<open>clearNeedReboot\<close> clears it. Reading the flag
  is not recorded among the effects; the two calls that change it are.
\<close>

definition loadNeedReboot :: "world \<Rightarrow> bool" where
  "loadNeedReboot w = need_reboot w"

definition storeNeedReboot :: "world \<Rightarrow> world" where
  "storeNeedReboot w = do_effect StoreNeedReboot (w\<lparr>need_reboot := True\<rparr>)"

definition clearNeedReboot :: "world \<Rightarrow> world" where
  "clearNeedReboot w = do_effect ClearNeedReboot (w\<lparr>need_reboot := False\<rparr>)"

text \<open>
  Modelled from the spec: the filesystem primitives (\<open>Utils::writeFile\<close> of the
  utilities component, \<open>exists\<close> and \<open>remove\<close> of \<open>boost::filesystem\<close>, and
  \<open>std::ifstream\<close>): create or overwrite a file, check existence, remove a file, and
  read a whole file through an input stream, which yields the empty string when the
  file cannot be opened. Only the two that change the filesystem are recorded among the
  effects.
\<close>

definition writeFile :: "string \<Rightarrow> string \<Rightarrow> world \<Rightarrow> world" where
  "writeFile p content w = do_effect (WriteFile p content) (w\<lparr>files := (files w)(p \<mapsto> content)\<rparr>)"

definition fs_exists :: "string \<Rightarrow> world \<Rightarrow> bool" where
  "fs_exists p w = (files w p \<noteq> None)"

definition fs_remove :: "string \<Rightarrow> world \<Rightarrow> world" where
  "fs_remove p w = do_effect (RemoveFile p) (w\<lparr>files := (files w)(p := None)\<rparr>)"

definition read_stream :: "string \<Rightarrow> world \<Rightarrow> string" where
  "read_stream p w = (case files w p of None \<Rightarrow> [] | Some content \<Rightarrow> content)"

text \<open>The commands among a list of effects, in order.\<close>

fun shell_cmds :: "effect list \<Rightarrow> string list" where
  "shell_cmds [] = []"
| "shell_cmds (Shell c # es) = c # shell_cmds es"
| "shell_cmds (e # es) = shell_cmds es"

text \<open>
  \<open>Utils::shell(command, &sink)\<close>: runs the command and returns the exit status, the
  new content of \<open>sink\<close> and the world in which the command has been run.
\<close>

definition shell :: "executor \<Rightarrow> string \<Rightarrow> string \<Rightarrow> world \<Rightarrow> int \<times> string \<times> world" where
  "shell ex command sink w =
     (case ex (shell_cmds (effects w)) command sink of
        (status, sink') \<Rightarrow> (status, sink', do_effect (Shell command) w))"

text \<open>
  The idiom \<open>if (Utils::shell(command, &sink) != 0) { LOG_WARNING << msg; }\<close>,
  which the three lifecycle methods repeat.
\<close>

definition shell_or_warn :: "executor \<Rightarrow> string \<Rightarrow> string \<Rightarrow> string \<Rightarrow> world \<Rightarrow> string \<times> world" where
  "shell_or_warn ex command msg sink w =
     (case shell ex command sink w of
        (status, sink', w') \<Rightarrow> (sink', if status \<noteq> 0 then LOG Warning msg w' else w'))"

section \<open>Lifecycle methods\<close>

definition setBootOK :: "Bootloader \<Rightarrow> executor \<Rightarrow> world \<Rightarrow> exception + world" where
  "setBootOK b ex w =
     (let sink = [] in
      case rollback_mode (config_m b) of
        kBootloaderNone \<Rightarrow> Inr w
      | kUbootGeneric \<Rightarrow>
          (case shell_or_warn ex ''fw_setenv bootcount 0'' ''Failed resetting bootcount'' sink w of
             (sink, w) \<Rightarrow> Inr w)
      | kUbootMasked \<Rightarrow>
          (case shell_or_warn ex ''fw_setenv bootcount 0'' ''Failed resetting bootcount'' sink w of
             (sink, w) \<Rightarrow>
          (case shell_or_warn ex ''fw_setenv upgrade_available 0''
                  ''Failed resetting upgrade_available for u-boot'' sink w of
             (sink, w) \<Rightarrow> Inr w))
      | kFioVB \<Rightarrow>
          (case shell_or_warn ex ''fiovb_setenv bootcount 0'' ''Failed resetting bootcount'' sink w of
             (sink, w) \<Rightarrow>
          (case shell_or_warn ex ''fiovb_setenv upgrade_available 0''
                  ''Failed resetting upgrade_available'' sink w of
             (sink, w) \<Rightarrow> Inr w))
      | kUnrecognized n \<Rightarrow> Inl NotImplementedException)"

definition updateNotify :: "Bootloader \<Rightarrow> executor \<Rightarrow> world \<Rightarrow> exception + world" where
  "updateNotify b ex w =
     (let sink = [] in
      case rollback_mode (config_m b) of
        kBootloaderNone \<Rightarrow> Inr w
      | kUbootGeneric \<Rightarrow>
          (case shell_or_warn ex ''fw_setenv bootcount 0'' ''Failed resetting bootcount'' sink w of
             (sink, w) \<Rightarrow>
          (case shell_or_warn ex ''fw_setenv rollback 0'' ''Failed resetting rollback flag'' sink w of
             (sink, w) \<Rightarrow> Inr w))
      | kUbootMasked \<Rightarrow>
          (case shell_or_warn ex ''fw_setenv bootcount 0'' ''Failed resetting bootcount'' sink w of
             (sink, w) \<Rightarrow>
          (case shell_or_warn ex ''fw_setenv upgrade_available 1''
                  ''Failed setting upgrade_available for u-boot'' sink w of
             (sink, w) \<Rightarrow>
          (case shell_or_warn ex ''fw_setenv rollback 0'' ''Failed resetting rollback flag'' sink w of
             (sink, w) \<Rightarrow> Inr w)))
      | kFioVB \<Rightarrow>
          (case shell_or_warn ex ''fiovb_setenv bootcount 0'' ''Failed resetting bootcount'' sink w of
             (sink, w) \<Rightarrow>
          (case shell_or_warn ex ''fiovb_setenv upgrade_available 1''
                  ''Failed setting upgrade_available'' sink w of
             (sink, w) \<Rightarrow>
          (case shell_or_warn ex ''fiovb_setenv rollback 0'' ''Failed resetting rollback flag'' sink w of
             (sink, w) \<Rightarrow> Inr w)))
      | kUnrecognized n \<Rightarrow> Inl NotImplementedException)"

subsection \<open>The firmware version of a target\<close>

text \<open>\<open>s.compare(0, p.size(), p) == 0\<close>: the string \<open>s\<close> starts with \<open>p\<close>.\<close>

fun starts_with :: "string \<Rightarrow> string \<Rightarrow> bool" where
  "starts_with s [] = True"
| "starts_with [] (c # p) = False"
| "starts_with (d # s) (c # p) = (d = c \<and> starts_with s p)"

text \<open>
  \<open>std::string::find\<close>: the position of the first occurrence of \<open>p\<close> in \<open>s\<close>, and
  \<open>None\<close> for \<open>npos\<close>.
\<close>

fun str_find :: "string \<Rightarrow> string \<Rightarrow> nat option" where
  "str_find [] p = (if p = [] then Some 0 else None)"
| "str_find (c # s) p =
     (if starts_with (c # s) p then Some 0
      else case str_find s p of None \<Rightarrow> None | Some i \<Rightarrow> Some (Suc i))"

text \<open>
  \<open>std::string::erase(i, n)\<close> for \<open>i\<close> within the string: removes the \<open>n\<close>
  characters from position \<open>i\<close> on, or all that are left if they are fewer.
\<close>

definition str_erase :: "string \<Rightarrow> nat \<Rightarrow> nat \<Rightarrow> string" where
  "str_erase s i n = take i s @ drop (i + n) s"

definition version_flag :: string where
  "version_flag = ''bootfirmware_version''"

definition version_file :: "string \<Rightarrow> string" where
  "version_file target_hash =
     ''/ostree/deploy/lmp/deploy/'' @ target_hash @ ''.0'' @ ''/usr/lib/firmware/version.txt''"

text \<open>
  The lines of \<open>installNotify\<close> that turn the content of the version file into
  \<open>target_firmware_ver\<close>: find the flag, and erase it with one more character.
\<close>

definition target_firmware_ver :: "string \<Rightarrow> string" where
  "target_firmware_ver content =
     (case str_find content version_flag of
        None \<Rightarrow> content
      | Some i \<Rightarrow> str_erase content i (length version_flag + 1))"

text \<open>
  The arms \<open>kUbootMasked\<close> and \<open>kFioVB\<close> of \<open>installNotify\<close> are the same code with
  other command names and another warning: \<open>printenv\<close> and \<open>setenv\<close> are the two
  commands, \<open>msg\<close> the warning when the second fails.
\<close>

definition firmware_arm :: "executor \<Rightarrow> string \<Rightarrow> string \<Rightarrow> string \<Rightarrow> string \<Rightarrow> string \<Rightarrow> world \<Rightarrow> world" where
  "firmware_arm ex printenv setenv msg target_ver sink w =
     (case shell_or_warn ex printenv ''Failed getting bootfirmware_version for u-boot'' sink w of
        (sink, w) \<Rightarrow>
          (let w = LOG Info (''Current boot firmware version: '' @ sink) w in
           if sink \<noteq> target_ver then
             (let w = LOG Info (''Update boot firmware to version: '' @ target_ver) w in
              case shell_or_warn ex setenv msg sink w of (sink, w) \<Rightarrow> w)
           else LOG Info (''Update of boot firmware is not needed'' @ sink) w))"

definition installNotify :: "Bootloader \<Rightarrow> executor \<Rightarrow> Target \<Rightarrow> world \<Rightarrow> exception + world" where
  "installNotify b ex target w =
     (let sink = [];
          target_hash = sha256Hash target;
          content = read_stream (version_file target_hash) w;
          w = LOG Info (''Reading target boot firmware version file: '' @ version_file target_hash) w;
          target_ver = target_firmware_ver content;
          w = LOG Info (''Target boot firmware version: '' @ target_ver) w
      in
      case rollback_mode (config_m b) of
        kBootloaderNone \<Rightarrow> Inr w
      | kUbootGeneric \<Rightarrow> Inr w
      | kUbootMasked \<Rightarrow>
          Inr (firmware_arm ex ''fw_printenv bootfirmware_version''
                 ''fw_setenv bootupgrade_available 1''
                 ''Failed setting bootupgrade_available for u-boot'' target_ver sink w)
      | kFioVB \<Rightarrow>
          Inr (firmware_arm ex ''fiovb_printenv bootfirmware_version''
                 ''fiovb_setenv bootupgrade_available 1''
                 ''Failed to set bootupgrade_available'' target_ver sink w)
      | kUnrecognized n \<Rightarrow> Inl NotImplementedException)"

section \<open>Reboot detection\<close>

text \<open>
  The constructor. Joining the sentinel's directory and name (\<open>operator/\<close> of
  \<open>boost::filesystem::path\<close>) and \<open>Utils::createSecureDirectory\<close> are library and
  utility code and are taken as parameters.
\<close>

definition Bootloader_ctor ::
    "(string \<Rightarrow> string \<Rightarrow> string) \<Rightarrow> (string \<Rightarrow> bool) \<Rightarrow> BootloaderConfig \<Rightarrow> Bootloader" where
  "Bootloader_ctor path_join createSecureDirectory config =
     \<lparr>config_m = config,
      reboot_sentinel_m = path_join (reboot_sentinel_dir config) (reboot_sentinel_name config),
      reboot_command_m = reboot_command config,
      reboot_detect_supported_m =
        (if \<not> createSecureDirectory (reboot_sentinel_dir config) then False else True)\<rparr>"

definition supportRebootDetection :: "Bootloader \<Rightarrow> bool" where
  "supportRebootDetection b = reboot_detect_supported_m b"

definition rebootDetected :: "Bootloader \<Rightarrow> world \<Rightarrow> bool" where
  "rebootDetected b w =
     (if \<not> reboot_detect_supported_m b then False
      else let sentinel_exists = fs_exists (reboot_sentinel_m b) w;
               need_reboot = loadNeedReboot w
           in need_reboot \<and> \<not> sentinel_exists)"

text \<open>
  \<open>rebootFlagSet\<close> and \<open>rebootFlagClear\<close> make two writes each, one after the other.
  The writes are kept as a list, in the order of the source, so that the method is what
  running all of them gives and a fault after \<open>k\<close> of them is what running the first
  \<open>k\<close> gives.
\<close>

definition run_writes :: "(world \<Rightarrow> world) list \<Rightarrow> world \<Rightarrow> world" where
  "run_writes ws w = fold (\<lambda>f. f) ws w"

definition fault_after :: "nat \<Rightarrow> (world \<Rightarrow> world) list \<Rightarrow> world \<Rightarrow> world" where
  "fault_after k ws w = run_writes (take k ws) w"

definition rebootFlagSet_writes :: "Bootloader \<Rightarrow> (world \<Rightarrow> world) list" where
  "rebootFlagSet_writes b =
     (if \<not> reboot_detect_supported_m b then []
      else [writeFile (reboot_sentinel_m b) [], storeNeedReboot])"

definition rebootFlagSet :: "Bootloader \<Rightarrow> world \<Rightarrow> world" where
  "rebootFlagSet b w = run_writes (rebootFlagSet_writes b) w"

definition rebootFlagClear_writes :: "Bootloader \<Rightarrow> (world \<Rightarrow> world) list" where
  "rebootFlagClear_writes b =
     (if \<not> reboot_detect_supported_m b then []
      else [clearNeedReboot, fs_remove (reboot_sentinel_m b)])"

definition rebootFlagClear :: "Bootloader \<Rightarrow> world \<Rightarrow> world" where
  "rebootFlagClear b w = run_writes (rebootFlagClear_writes b) w"

text \<open>
  \<open>reboot\<close> has no \<open>throw\<close>; it has the result type of the lifecycle methods so that
  returning normally is something a theorem can say.
\<close>

definition reboot :: "os \<Rightarrow> Bootloader \<Rightarrow> bool \<Rightarrow> world \<Rightarrow> exception + world" where
  "reboot sys b fake_reboot w =
     (if fake_reboot then Inr (fs_remove (reboot_sentinel_m b) w)
      else
        (let w = do_effect (SetUid 0) w in
         if setuid sys 0 \<noteq> 0 then
           Inr (LOG Error ''Failed to set/verify a root user so cannot reboot system programmatically'' w)
         else
           (let w = do_effect Sync w;
                w = do_effect (System (reboot_command_m b)) w
            in if system sys (reboot_command_m b) \<noteq> 0 then
                 Inr (LOG Error (''Failed to execute the reboot command: '' @ reboot_command_m b) w)
               else Inr w)))"

section \<open>Observations\<close>

text \<open>
  What a call did, read off the worlds before and after it: the commands it handed to
  the executor are those among the effects it added.
\<close>

definition commands_issued :: "world \<Rightarrow> world \<Rightarrow> string list" where
  "commands_issued w w' = shell_cmds (drop (length (effects w)) (effects w'))"

definition outcome :: "world \<Rightarrow> exception + world \<Rightarrow> exception + string list" where
  "outcome w r = (case r of Inl e \<Rightarrow> Inl e | Inr w' \<Rightarrow> Inr (commands_issued w w'))"

definition returns_normally :: "exception + world \<Rightarrow> bool" where
  "returns_normally r = (case r of Inl e \<Rightarrow> False | Inr w' \<Rightarrow> True)"

text \<open>
  The target firmware version as the specification words it, for comparison with
  \<open>target_firmware_ver\<close>: the content of the version file with a leading
  \<open>bootfirmware_version=\<close> stripped if the content starts with it, and the content as
  it is otherwise.
\<close>

definition spec_target_version :: "string \<Rightarrow> string" where
  "spec_target_version content =
     (if starts_with content ''bootfirmware_version=''
      then drop (length ''bootfirmware_version='') content
      else content)"

section \<open>Concrete inputs\<close>

definition example_config :: "RollbackMode \<Rightarrow> BootloaderConfig" where
  "example_config mode =
     \<lparr>rollback_mode = mode,
      reboot_sentinel_dir = ''/var/run/aktualizr-session'',
      reboot_sentinel_name = ''need_reboot'',
      reboot_command = ''/sbin/reboot''\<rparr>"

definition example_bootloader :: "RollbackMode \<Rightarrow> bool \<Rightarrow> Bootloader" where
  "example_bootloader mode secure =
     Bootloader_ctor (\<lambda>dir name. dir @ ''/'' @ name) (\<lambda>dir. secure) (example_config mode)"

definition example_world :: "bool \<Rightarrow> (string \<times> string) list \<Rightarrow> world" where
  "example_world flag fs = \<lparr>need_reboot = flag, files = map_of fs, effects = [], logs = []\<rparr>"

definition example_target :: Target where
  "example_target = \<lparr>sha256Hash = ''a1b2''\<rparr>"

text \<open>An executor that answers every command with the same status and the same output.\<close>

definition answers :: "int \<Rightarrow> string \<Rightarrow> executor" where
  "answers status out = (\<lambda>history command sink. (status, sink @ out))"

definition example_os :: "int \<Rightarrow> int \<Rightarrow> os" where
  "example_os uid_result status = \<lparr>setuid = (\<lambda>uid. uid_result), system = (\<lambda>command. status)\<rparr>"

section \<open>Auxiliary facts\<close>

text \<open>Logging and recording an effect touch one field of the world each.\<close>

lemma effects_LOG: "effects (LOG sev msg w) = effects w"
  by (simp add: LOG_def)
lemma files_LOG: "files (LOG sev msg w) = files w"
  by (simp add: LOG_def)
lemma need_reboot_LOG: "need_reboot (LOG sev msg w) = need_reboot w"
  by (simp add: LOG_def)
lemma logs_LOG: "logs (LOG sev msg w) = logs w @ [(sev, msg)]"
  by (simp add: LOG_def)

lemma effects_do_effect: "effects (do_effect e w) = effects w @ [e]"
  by (simp add: do_effect_def)
lemma files_do_effect: "files (do_effect e w) = files w"
  by (simp add: do_effect_def)
lemma need_reboot_do_effect: "need_reboot (do_effect e w) = need_reboot w"
  by (simp add: do_effect_def)
lemma logs_do_effect: "logs (do_effect e w) = logs w"
  by (simp add: do_effect_def)

lemmas world_simps = effects_LOG files_LOG need_reboot_LOG logs_LOG
  effects_do_effect files_do_effect need_reboot_do_effect logs_do_effect

lemma shell_or_warn_eq:
  "shell_or_warn ex c m s w =
     (snd (ex (shell_cmds (effects w)) c s),
      (if fst (ex (shell_cmds (effects w)) c s) \<noteq> 0 then LOG Warning m (do_effect (Shell c) w)
       else do_effect (Shell c) w))"
  by (simp add: shell_or_warn_def shell_def split: prod.splits)

lemma effects_shell_or_warn: "effects (snd (shell_or_warn ex c m s w)) = effects w @ [Shell c]"
  by (simp add: shell_or_warn_eq world_simps)

lemma fst_shell_or_warn: "fst (shell_or_warn ex c m s w) = snd (ex (shell_cmds (effects w)) c s)"
  by (simp add: shell_or_warn_eq)

lemma commands_issued_refl: "commands_issued w w = []"
  by (simp add: commands_issued_def)

lemma commands_issued_append: "effects w' = effects w @ es \<Longrightarrow> commands_issued w w' = shell_cmds es"
  by (simp add: commands_issued_def)

lemma setBootOK_eq: "setBootOK b ex w =
   (case rollback_mode (config_m b) of
        kBootloaderNone \<Rightarrow> Inr w
      | kUbootGeneric \<Rightarrow>
          Inr (snd (shell_or_warn ex ''fw_setenv bootcount 0'' ''Failed resetting bootcount'' [] w))
      | kUbootMasked \<Rightarrow>
          (let r = shell_or_warn ex ''fw_setenv bootcount 0'' ''Failed resetting bootcount'' [] w in
          Inr (snd (shell_or_warn ex ''fw_setenv upgrade_available 0''
                  ''Failed resetting upgrade_available for u-boot'' (fst r) (snd r))))
      | kFioVB \<Rightarrow>
          (let r = shell_or_warn ex ''fiovb_setenv bootcount 0'' ''Failed resetting bootcount'' [] w in
          Inr (snd (shell_or_warn ex ''fiovb_setenv upgrade_available 0''
                  ''Failed resetting upgrade_available'' (fst r) (snd r))))
      | kUnrecognized n \<Rightarrow> Inl NotImplementedException)"
  by (simp add: setBootOK_def Let_def split: prod.splits RollbackMode.splits)

lemma updateNotify_eq: "updateNotify b ex w =
   (case rollback_mode (config_m b) of
        kBootloaderNone \<Rightarrow> Inr w
      | kUbootGeneric \<Rightarrow>
          (let r = shell_or_warn ex ''fw_setenv bootcount 0'' ''Failed resetting bootcount'' [] w in
          Inr (snd (shell_or_warn ex ''fw_setenv rollback 0'' ''Failed resetting rollback flag'' (fst r) (snd r))))
      | kUbootMasked \<Rightarrow>
          (let r = shell_or_warn ex ''fw_setenv bootcount 0'' ''Failed resetting bootcount'' [] w;
               r = shell_or_warn ex ''fw_setenv upgrade_available 1''
                  ''Failed setting upgrade_available for u-boot'' (fst r) (snd r) in
          Inr (snd (shell_or_warn ex ''fw_setenv rollback 0'' ''Failed resetting rollback flag'' (fst r) (snd r))))
      | kFioVB \<Rightarrow>
          (let r = shell_or_warn ex ''fiovb_setenv bootcount 0'' ''Failed resetting bootcount'' [] w;
               r = shell_or_warn ex ''fiovb_setenv upgrade_available 1''
                  ''Failed setting upgrade_available'' (fst r) (snd r) in
          Inr (snd (shell_or_warn ex ''fiovb_setenv rollback 0'' ''Failed resetting rollback flag'' (fst r) (snd r))))
      | kUnrecognized n \<Rightarrow> Inl NotImplementedException)"
  by (simp add: updateNotify_def Let_def split: prod.splits RollbackMode.splits)

text \<open>
  \<open>starts_with\<close> and \<open>str_find\<close> against the library: \<open>str_find s p\<close> is the least
  position at which \<open>p\<close> occurs in \<open>s\<close>, and \<open>None\<close> when it occurs nowhere.
\<close>

lemma starts_with_iff: "starts_with s p \<longleftrightarrow> take (length p) s = p"
  by (induction s p rule: starts_with.induct) auto

lemma starts_with_append: "starts_with (p @ s) p"
  by (simp add: starts_with_iff)

lemma str_find_Some:
  "str_find s p = Some i \<Longrightarrow>
     i \<le> length s \<and> starts_with (drop i s) p \<and> (\<forall>j<i. \<not> starts_with (drop j s) p)"
proof (induction s arbitrary: i)
  case Nil
  then show ?case by (simp split: if_splits)
next
  case (Cons c s)
  show ?case
  proof (cases "starts_with (c # s) p")
    case True
    with Cons.prems show ?thesis by simp
  next
    case False
    with Cons.prems obtain i' where i': "str_find s p = Some i'" "i = Suc i'"
      by (auto split: option.splits)
    from Cons.IH [OF i'(1)] False i'(2) show ?thesis
      by (auto simp add: less_Suc_eq_0_disj)
  qed
qed

lemma str_find_None:
  "str_find s p = None \<Longrightarrow> j \<le> length s \<Longrightarrow> \<not> starts_with (drop j s) p"
proof (induction s arbitrary: j)
  case Nil
  then show ?case by (cases p) (simp_all split: if_splits)
next
  case (Cons c s)
  from Cons.prems(1) have nf: "\<not> starts_with (c # s) p" and rest: "str_find s p = None"
    by (auto split: if_splits option.splits)
  show ?case
  proof (cases j)
    case 0
    with nf show ?thesis by simp
  next
    case (Suc j')
    with Cons.prems(2) Cons.IH [OF rest, of j'] show ?thesis by simp
  qed
qed

lemma str_find_first:
  assumes "starts_with (drop i s) p" and "i \<le> length s"
    and "\<forall>j<i. \<not> starts_with (drop j s) p"
  shows "str_find s p = Some i"
proof (cases "str_find s p")
  case None
  from str_find_None [OF None assms(2)] assms(1) show ?thesis by simp
next
  case (Some k)
  from str_find_Some [OF Some] have k: "starts_with (drop k s) p" "\<forall>j<k. \<not> starts_with (drop j s) p"
    by simp_all
  have "k = i"
  proof (rule ccontr)
    assume "k \<noteq> i"
    then consider "k < i" | "i < k" by linarith
    then show False
    proof cases
      case 1 with assms(3) k(1) show False by simp
    next
      case 2 with k(2) assms(1) show False by simp
    qed
  qed
  with Some show ?thesis by simp
qed

text \<open>
  What \<open>target_firmware_ver\<close> does with the content of the version file: the first
  occurrence of the flag goes, with the character after it.
\<close>

lemma target_firmware_ver_first:
  assumes "\<forall>j<length pre. take (length version_flag) (drop j (pre @ version_flag @ rest)) \<noteq> version_flag"
  shows "target_firmware_ver (pre @ version_flag @ rest) = pre @ drop 1 rest"
proof -
  have "str_find (pre @ version_flag @ rest) version_flag = Some (length pre)"
    using assms by (intro str_find_first) (simp_all add: starts_with_iff)
  then show ?thesis
    by (simp add: target_firmware_ver_def str_erase_def)
qed

lemma target_firmware_ver_absent:
  assumes "\<forall>j\<le>length content. take (length version_flag) (drop j content) \<noteq> version_flag"
  shows "target_firmware_ver content = content"
proof (cases "str_find content version_flag")
  case None
  then show ?thesis by (simp add: target_firmware_ver_def)
next
  case (Some i)
  from str_find_Some [OF Some] assms show ?thesis
    by (auto simp add: starts_with_iff)
qed

lemma target_firmware_ver_leading: "target_firmware_ver (''bootfirmware_version='' @ v) = v"
  using target_firmware_ver_first [of "[]" "CHR ''='' # v"] by (simp add: version_flag_def)

text \<open>
  The arm of \<open>installNotify\<close> for the masked and the secure-boot backend.
\<close>

lemma effects_firmware_arm:
  "effects (firmware_arm ex printenv setenv msg target_ver sink w) =
     effects w @ Shell printenv #
       (if snd (ex (shell_cmds (effects w)) printenv sink) \<noteq> target_ver then [Shell setenv] else [])"
  by (simp add: firmware_arm_def shell_or_warn_eq Let_def world_simps)

lemma logs_firmware_arm:
  "fst (ex (shell_cmds (effects w)) printenv sink) \<noteq> 0 \<Longrightarrow>
     (Warning, ''Failed getting bootfirmware_version for u-boot'')
       \<in> set (logs (firmware_arm ex printenv setenv msg target_ver sink w))"
  by (simp add: firmware_arm_def shell_or_warn_eq Let_def world_simps)

lemma shell_cmds_snoc: "shell_cmds (es @ [Shell c]) = shell_cmds es @ [c]"
  by (induction es rule: shell_cmds.induct) simp_all

lemma logs_firmware_arm_setenv:
  "snd (ex (shell_cmds (effects w)) printenv sink) \<noteq> target_ver \<Longrightarrow>
   fst (ex (shell_cmds (effects w) @ [printenv]) setenv
          (snd (ex (shell_cmds (effects w)) printenv sink))) \<noteq> 0 \<Longrightarrow>
     (Warning, msg) \<in> set (logs (firmware_arm ex printenv setenv msg target_ver sink w))"
  by (simp add: firmware_arm_def shell_or_warn_eq Let_def world_simps shell_cmds_snoc)

lemma state_firmware_arm:
  "need_reboot (firmware_arm ex printenv setenv msg target_ver sink w) = need_reboot w \<and>
   files (firmware_arm ex printenv setenv msg target_ver sink w) = files w"
  by (simp add: firmware_arm_def shell_or_warn_eq Let_def world_simps)

lemma installNotify_eq:
  "installNotify b ex target w =
     (let w' = LOG Info (''Target boot firmware version: ''
                  @ target_firmware_ver (read_stream (version_file (sha256Hash target)) w))
                (LOG Info (''Reading target boot firmware version file: ''
                  @ version_file (sha256Hash target)) w)
      in case rollback_mode (config_m b) of
        kBootloaderNone \<Rightarrow> Inr w'
      | kUbootGeneric \<Rightarrow> Inr w'
      | kUbootMasked \<Rightarrow>
          Inr (firmware_arm ex ''fw_printenv bootfirmware_version''
                 ''fw_setenv bootupgrade_available 1''
                 ''Failed setting bootupgrade_available for u-boot''
                 (target_firmware_ver (read_stream (version_file (sha256Hash target)) w)) [] w')
      | kFioVB \<Rightarrow>
          Inr (firmware_arm ex ''fiovb_printenv bootfirmware_version''
                 ''fiovb_setenv bootupgrade_available 1''
                 ''Failed to set bootupgrade_available''
                 (target_firmware_ver (read_stream (version_file (sha256Hash target)) w)) [] w')
      | kUnrecognized n \<Rightarrow> Inl NotImplementedException)"
  by (simp add: installNotify_def Let_def)

lemma outcome_installNotify_masked:
  "rollback_mode (config_m b) = kUbootMasked \<Longrightarrow>
     outcome w (installNotify b ex target w) =
       Inr (''fw_printenv bootfirmware_version'' #
         (if snd (ex (shell_cmds (effects w)) ''fw_printenv bootfirmware_version'' [])
               \<noteq> target_firmware_ver (read_stream (version_file (sha256Hash target)) w)
          then [''fw_setenv bootupgrade_available 1''] else []))"
  by (simp add: installNotify_eq Let_def outcome_def commands_issued_def
        effects_firmware_arm world_simps)

lemma outcome_installNotify_fiovb:
  "rollback_mode (config_m b) = kFioVB \<Longrightarrow>
     outcome w (installNotify b ex target w) =
       Inr (''fiovb_printenv bootfirmware_version'' #
         (if snd (ex (shell_cmds (effects w)) ''fiovb_printenv bootfirmware_version'' [])
               \<noteq> target_firmware_ver (read_stream (version_file (sha256Hash target)) w)
          then [''fiovb_setenv bootupgrade_available 1''] else []))"
  by (simp add: installNotify_eq Let_def outcome_def commands_issued_def
        effects_firmware_arm world_simps)

text \<open>
  The capability flag is what \<open>Utils::createSecureDirectory\<close> returned at construction.
\<close>

lemma ctor_reboot_detect_supported:
  "reboot_detect_supported_m (Bootloader_ctor path_join createSecureDirectory config)
     = createSecureDirectory (reboot_sentinel_dir config)"
  by (simp add: Bootloader_ctor_def)

text \<open>
  The two writes of \<open>rebootFlagSet\<close> and \<open>rebootFlagClear\<close>, one after the other.
\<close>

lemma run_writes_Nil: "run_writes [] w = w"
  by (simp add: run_writes_def)

lemma run_writes_Cons: "run_writes (f # fs) w = run_writes fs (f w)"
  by (simp add: run_writes_def)

lemma rebootFlagSet_eq:
  "rebootFlagSet b w =
     (if \<not> reboot_detect_supported_m b then w
      else storeNeedReboot (writeFile (reboot_sentinel_m b) [] w))"
  by (simp add: rebootFlagSet_def rebootFlagSet_writes_def run_writes_Nil run_writes_Cons)

lemma rebootFlagClear_eq:
  "rebootFlagClear b w =
     (if \<not> reboot_detect_supported_m b then w
      else fs_remove (reboot_sentinel_m b) (clearNeedReboot w))"
  by (simp add: rebootFlagClear_def rebootFlagClear_writes_def run_writes_Nil run_writes_Cons)

lemma rebootDetected_eq:
  "rebootDetected b w =
     (reboot_detect_supported_m b \<and> need_reboot w \<and> files w (reboot_sentinel_m b) = None)"
  by (auto simp add: rebootDetected_def fs_exists_def loadNeedReboot_def Let_def)

lemma fault_after_one: "0 < k \<Longrightarrow> k < 2 \<Longrightarrow> fault_after k [f, g] w = f w"
  by (cases k) (simp_all add: fault_after_def run_writes_Nil run_writes_Cons)

lemmas store_simps = storeNeedReboot_def clearNeedReboot_def writeFile_def fs_remove_def
  fs_exists_def world_simps

lemmas example_defs = example_bootloader_def Bootloader_ctor_def example_config_def
  example_world_def example_target_def answers_def example_os_def

text \<open>
  The order of the two writes of \<open>rebootFlagSet\<close> is what keeps a fault between them
  harmless: with the flag stored first, a fault after the first write leaves the flag
  set and no sentinel, which \<open>rebootDetected\<close> reads as a completed reboot.
\<close>

lemma reversed_set_order_unsafe:
  "rebootDetected (example_bootloader kUbootMasked True)
     (fault_after 1 [storeNeedReboot, writeFile (reboot_sentinel_m (example_bootloader kUbootMasked True)) []]
        (example_world False []))"
  by (simp add: fault_after_one rebootDetected_eq store_simps example_defs)

section \<open>Rollback strategy dispatch\<close>

text \<open>
  Claim C7. The commands \<open>setBootOK\<close> and \<open>updateNotify\<close> hand to the executor, per
  rollback mode and whatever the executor answers: \<open>setBootOK\<close> issues nothing for mode
  None, resets \<open>bootcount\<close> to 0 for UbootGeneric, resets \<open>bootcount\<close> and clears
  \<open>upgrade_available\<close> for UbootMasked, and does the same two steps with the
  \<open>fiovb\<close> tool for FioVB. \<open>updateNotify\<close> has the same shape, sets
  \<open>upgrade_available\<close> to 1 instead (UbootGeneric has no such marker) and resets
  \<open>rollback\<close> to 0 last.
\<close>

theorem command_decision_table: "outcome w (setBootOK b ex w) =
     (case rollback_mode (config_m b) of
        kBootloaderNone \<Rightarrow> Inr []
      | kUbootGeneric \<Rightarrow> Inr [''fw_setenv bootcount 0'']
      | kUbootMasked \<Rightarrow> Inr [''fw_setenv bootcount 0'', ''fw_setenv upgrade_available 0'']
      | kFioVB \<Rightarrow> Inr [''fiovb_setenv bootcount 0'', ''fiovb_setenv upgrade_available 0'']
      | kUnrecognized n \<Rightarrow> Inl NotImplementedException)
   \<and> outcome w (updateNotify b ex w) =
     (case rollback_mode (config_m b) of
        kBootloaderNone \<Rightarrow> Inr []
      | kUbootGeneric \<Rightarrow> Inr [''fw_setenv bootcount 0'', ''fw_setenv rollback 0'']
      | kUbootMasked \<Rightarrow> Inr [''fw_setenv bootcount 0'', ''fw_setenv upgrade_available 1'', ''fw_setenv rollback 0'']
      | kFioVB \<Rightarrow> Inr [''fiovb_setenv bootcount 0'', ''fiovb_setenv upgrade_available 1'', ''fiovb_setenv rollback 0'']
      | kUnrecognized n \<Rightarrow> Inl NotImplementedException)"
proof (cases "rollback_mode (config_m b)")
  case kBootloaderNone
  then show ?thesis
    by (simp add: setBootOK_eq updateNotify_eq outcome_def commands_issued_refl)
next
  case kUbootGeneric
  then show ?thesis
    by (simp add: setBootOK_eq updateNotify_eq outcome_def Let_def
        commands_issued_append [where es = "[_]"] commands_issued_append [where es = "[_, _]"]
        effects_shell_or_warn)
next
  case kUbootMasked
  then show ?thesis
    by (simp add: setBootOK_eq updateNotify_eq outcome_def Let_def
        commands_issued_append [where es = "[_, _]"] commands_issued_append [where es = "[_, _, _]"]
        effects_shell_or_warn)
next
  case kFioVB
  then show ?thesis
    by (simp add: setBootOK_eq updateNotify_eq outcome_def Let_def
        commands_issued_append [where es = "[_, _]"] commands_issued_append [where es = "[_, _, _]"]
        effects_shell_or_warn)
next
  case (kUnrecognized n)
  then show ?thesis
    by (simp add: setBootOK_eq updateNotify_eq outcome_def)
qed

text \<open>
  Claim C3. For each of the four recognized rollback modes, \<open>setBootOK\<close> and
  \<open>updateNotify\<close> return normally for every executor, that is, whatever exit status
  the commands have; for an unrecognized mode \<open>setBootOK\<close>, \<open>updateNotify\<close> and
  \<open>installNotify\<close> all end in \<open>NotImplementedException\<close>.
\<close>

theorem lifecycle_error_policy:
  "(rollback_mode (config_m b) \<in> {kBootloaderNone, kUbootGeneric, kUbootMasked, kFioVB} \<longrightarrow>
      returns_normally (setBootOK b ex w) \<and> returns_normally (updateNotify b ex w)) \<and>
   (rollback_mode (config_m b) = kUnrecognized n \<longrightarrow>
      setBootOK b ex w = Inl NotImplementedException \<and>
      updateNotify b ex w = Inl NotImplementedException \<and>
      installNotify b ex target w = Inl NotImplementedException)"
  by (auto simp add: setBootOK_eq updateNotify_eq installNotify_def returns_normally_def Let_def)

theorem lifecycle_error_policy_witness:
  "rollback_mode (config_m (example_bootloader kFioVB True))
      \<in> {kBootloaderNone, kUbootGeneric, kUbootMasked, kFioVB} \<and>
   returns_normally (setBootOK (example_bootloader kFioVB True) (answers 1 []) (example_world False [])) \<and>
   returns_normally (updateNotify (example_bootloader kFioVB True) (answers 1 []) (example_world False [])) \<and>
   rollback_mode (config_m (example_bootloader (kUnrecognized 7) True)) = kUnrecognized 7 \<and>
   setBootOK (example_bootloader (kUnrecognized 7) True) (answers 0 []) (example_world False [])
     = Inl NotImplementedException \<and>
   updateNotify (example_bootloader (kUnrecognized 7) True) (answers 0 []) (example_world False [])
     = Inl NotImplementedException \<and>
   installNotify (example_bootloader (kUnrecognized 7) True) (answers 0 []) example_target (example_world False [])
     = Inl NotImplementedException"
  using lifecycle_error_policy [where b = "example_bootloader kFioVB True" and ex = "answers 1 []"
              and w = "example_world False []"]
        lifecycle_error_policy [where b = "example_bootloader (kUnrecognized 7) True" and n = 7 and ex = "answers 0 []"
              and w = "example_world False []" and target = example_target]
  by (simp add: example_bootloader_def Bootloader_ctor_def example_config_def)

text \<open>
  Claim C4, as amended. For the masked U-Boot and the FioVB backend, when the version
  file of the target is missing (unreadable), \<open>installNotify\<close> raises no error, and
  since the missing file is read as the empty version it issues the
  set-\<open>bootupgrade_available\<close> command exactly when the version the executor reports
  is not empty. Likewise a failure of the \<open>printenv\<close> command or of any executor
  command (the only other one is the set command) is a non-fatal warning in the log and
  the operation completes; it leaves the durable flag and the files alone, and the
  commands it issues are decided by comparing what \<open>printenv\<close> left in the output
  buffer with the target version, whatever the exit statuses.
\<close>

theorem installNotify_failure_policy:
  "(rollback_mode (config_m b) = kUbootMasked \<longrightarrow>
      (\<exists>w'. installNotify b ex target w = Inr w' \<and>
         need_reboot w' = need_reboot w \<and> files w' = files w \<and>
         (fst (ex (shell_cmds (effects w)) ''fw_printenv bootfirmware_version'' []) \<noteq> 0 \<longrightarrow>
            (Warning, ''Failed getting bootfirmware_version for u-boot'') \<in> set (logs w')) \<and>
         (snd (ex (shell_cmds (effects w)) ''fw_printenv bootfirmware_version'' [])
              \<noteq> target_firmware_ver (read_stream (version_file (sha256Hash target)) w) \<and>
          fst (ex (shell_cmds (effects w) @ [''fw_printenv bootfirmware_version''])
                 ''fw_setenv bootupgrade_available 1''
                 (snd (ex (shell_cmds (effects w)) ''fw_printenv bootfirmware_version'' []))) \<noteq> 0 \<longrightarrow>
            (Warning, ''Failed setting bootupgrade_available for u-boot'') \<in> set (logs w')) \<and>
         commands_issued w w' =
           ''fw_printenv bootfirmware_version'' #
             (if snd (ex (shell_cmds (effects w)) ''fw_printenv bootfirmware_version'' [])
                   \<noteq> target_firmware_ver (read_stream (version_file (sha256Hash target)) w)
              then [''fw_setenv bootupgrade_available 1''] else []) \<and>
         (files w (version_file (sha256Hash target)) = None \<longrightarrow>
            commands_issued w w' =
              ''fw_printenv bootfirmware_version'' #
                (if snd (ex (shell_cmds (effects w)) ''fw_printenv bootfirmware_version'' []) \<noteq> []
                 then [''fw_setenv bootupgrade_available 1''] else [])))) \<and>
   (rollback_mode (config_m b) = kFioVB \<longrightarrow>
      (\<exists>w'. installNotify b ex target w = Inr w' \<and>
         need_reboot w' = need_reboot w \<and> files w' = files w \<and>
         (fst (ex (shell_cmds (effects w)) ''fiovb_printenv bootfirmware_version'' []) \<noteq> 0 \<longrightarrow>
            (Warning, ''Failed getting bootfirmware_version for u-boot'') \<in> set (logs w')) \<and>
         (snd (ex (shell_cmds (effects w)) ''fiovb_printenv bootfirmware_version'' [])
              \<noteq> target_firmware_ver (read_stream (version_file (sha256Hash target)) w) \<and>
          fst (ex (shell_cmds (effects w) @ [''fiovb_printenv bootfirmware_version''])
                 ''fiovb_setenv bootupgrade_available 1''
                 (snd (ex (shell_cmds (effects w)) ''fiovb_printenv bootfirmware_version'' []))) \<noteq> 0 \<longrightarrow>
            (Warning, ''Failed to set bootupgrade_available'') \<in> set (logs w')) \<and>
         commands_issued w w' =
           ''fiovb_printenv bootfirmware_version'' #
             (if snd (ex (shell_cmds (effects w)) ''fiovb_printenv bootfirmware_version'' [])
                   \<noteq> target_firmware_ver (read_stream (version_file (sha256Hash target)) w)
              then [''fiovb_setenv bootupgrade_available 1''] else []) \<and>
         (files w (version_file (sha256Hash target)) = None \<longrightarrow>
            commands_issued w w' =
              ''fiovb_printenv bootfirmware_version'' #
                (if snd (ex (shell_cmds (effects w)) ''fiovb_printenv bootfirmware_version'' []) \<noteq> []
                 then [''fiovb_setenv bootupgrade_available 1''] else []))))"
proof -
  define tv where "tv = target_firmware_ver (read_stream (version_file (sha256Hash target)) w)"
  define w0 where "w0 = LOG Info (''Target boot firmware version: '' @ tv)
    (LOG Info (''Reading target boot firmware version file: '' @ version_file (sha256Hash target)) w)"
  have absent: "files w (version_file (sha256Hash target)) = None \<Longrightarrow> tv = []"
    by (simp add: tv_def read_stream_def target_firmware_ver_def version_flag_def)
  have w0: "effects w0 = effects w" "files w0 = files w" "need_reboot w0 = need_reboot w"
    by (simp_all add: w0_def world_simps)
  have arm: "\<exists>w'. Inr (firmware_arm ex pe se msg tv [] w0) = (Inr w' :: exception + world) \<and>
      need_reboot w' = need_reboot w \<and> files w' = files w \<and>
      (fst (ex (shell_cmds (effects w)) pe []) \<noteq> 0 \<longrightarrow>
         (Warning, ''Failed getting bootfirmware_version for u-boot'') \<in> set (logs w')) \<and>
      (snd (ex (shell_cmds (effects w)) pe []) \<noteq> tv \<and>
       fst (ex (shell_cmds (effects w) @ [pe]) se (snd (ex (shell_cmds (effects w)) pe []))) \<noteq> 0 \<longrightarrow>
         (Warning, msg) \<in> set (logs w')) \<and>
      commands_issued w w' =
        pe # (if snd (ex (shell_cmds (effects w)) pe []) \<noteq> tv then [se] else []) \<and>
      (files w (version_file (sha256Hash target)) = None \<longrightarrow>
         commands_issued w w' =
           pe # (if snd (ex (shell_cmds (effects w)) pe []) \<noteq> [] then [se] else []))"
    for pe se msg
  proof -
    let ?X = "firmware_arm ex pe se msg tv [] w0"
    have 1: "need_reboot ?X = need_reboot w" "files ?X = files w"
      using state_firmware_arm [of ex pe se msg tv "[]" w0] by (simp_all add: w0)
    have 2: "fst (ex (shell_cmds (effects w)) pe []) \<noteq> 0 \<Longrightarrow>
         (Warning, ''Failed getting bootfirmware_version for u-boot'') \<in> set (logs ?X)"
      using logs_firmware_arm [of ex w0 pe "[]" se msg tv] by (simp add: w0)
    have 3: "snd (ex (shell_cmds (effects w)) pe []) \<noteq> tv \<Longrightarrow>
       fst (ex (shell_cmds (effects w) @ [pe]) se (snd (ex (shell_cmds (effects w)) pe []))) \<noteq> 0 \<Longrightarrow>
         (Warning, msg) \<in> set (logs ?X)"
      using logs_firmware_arm_setenv [of ex w0 pe "[]" tv se msg] by (simp add: w0)
    have 4: "commands_issued w ?X =
        pe # (if snd (ex (shell_cmds (effects w)) pe []) \<noteq> tv then [se] else [])"
      by (simp add: commands_issued_def effects_firmware_arm w0)
    have 5: "files w (version_file (sha256Hash target)) = None \<Longrightarrow> commands_issued w ?X =
           pe # (if snd (ex (shell_cmds (effects w)) pe []) \<noteq> [] then [se] else [])"
      using 4 absent by simp
    show ?thesis
      by (rule exI [where x = ?X]) (use 1 2 3 4 5 in blast)
  qed
  have masked: "rollback_mode (config_m b) = kUbootMasked \<Longrightarrow>
      installNotify b ex target w =
        Inr (firmware_arm ex ''fw_printenv bootfirmware_version''
               ''fw_setenv bootupgrade_available 1''
               ''Failed setting bootupgrade_available for u-boot'' tv [] w0)"
    and fiovb: "rollback_mode (config_m b) = kFioVB \<Longrightarrow>
      installNotify b ex target w =
        Inr (firmware_arm ex ''fiovb_printenv bootfirmware_version''
               ''fiovb_setenv bootupgrade_available 1''
               ''Failed to set bootupgrade_available'' tv [] w0)"
    by (simp_all add: installNotify_eq Let_def tv_def w0_def)
  show ?thesis
    unfolding tv_def [symmetric]
  proof (intro conjI impI)
    assume "rollback_mode (config_m b) = kUbootMasked"
    from masked [OF this] show "\<exists>w'. installNotify b ex target w = Inr w' \<and>
          need_reboot w' = need_reboot w \<and> files w' = files w \<and>
          (fst (ex (shell_cmds (effects w)) ''fw_printenv bootfirmware_version'' []) \<noteq> 0 \<longrightarrow>
           (Warning, ''Failed getting bootfirmware_version for u-boot'') \<in> set (logs w')) \<and>
          (snd (ex (shell_cmds (effects w)) ''fw_printenv bootfirmware_version'' []) \<noteq> tv \<and>
           fst (ex (shell_cmds (effects w) @ [''fw_printenv bootfirmware_version''])
                 ''fw_setenv bootupgrade_available 1''
                 (snd (ex (shell_cmds (effects w)) ''fw_printenv bootfirmware_version'' []))) \<noteq> 0 \<longrightarrow>
           (Warning, ''Failed setting bootupgrade_available for u-boot'') \<in> set (logs w')) \<and>
          commands_issued w w' =
          ''fw_printenv bootfirmware_version'' #
          (if snd (ex (shell_cmds (effects w)) ''fw_printenv bootfirmware_version'' []) \<noteq> tv
           then [''fw_setenv bootupgrade_available 1''] else []) \<and>
          (files w (version_file (sha256Hash target)) = None \<longrightarrow>
           commands_issued w w' =
           ''fw_printenv bootfirmware_version'' #
           (if snd (ex (shell_cmds (effects w)) ''fw_printenv bootfirmware_version'' []) \<noteq> []
            then [''fw_setenv bootupgrade_available 1''] else []))"
      by (simp only: arm)
  next
    assume "rollback_mode (config_m b) = kFioVB"
    from fiovb [OF this] show "\<exists>w'. installNotify b ex target w = Inr w' \<and>
          need_reboot w' = need_reboot w \<and> files w' = files w \<and>
          (fst (ex (shell_cmds (effects w)) ''fiovb_printenv bootfirmware_version'' []) \<noteq> 0 \<longrightarrow>
           (Warning, ''Failed getting bootfirmware_version for u-boot'') \<in> set (logs w')) \<and>
          (snd (ex (shell_cmds (effects w)) ''fiovb_printenv bootfirmware_version'' []) \<noteq> tv \<and>
           fst (ex (shell_cmds (effects w) @ [''fiovb_printenv bootfirmware_version''])
                 ''fiovb_setenv bootupgrade_available 1''
                 (snd (ex (shell_cmds (effects w)) ''fiovb_printenv bootfirmware_version'' []))) \<noteq> 0 \<longrightarrow>
           (Warning, ''Failed to set bootupgrade_available'') \<in> set (logs w')) \<and>
          commands_issued w w' =
          ''fiovb_printenv bootfirmware_version'' #
          (if snd (ex (shell_cmds (effects w)) ''fiovb_printenv bootfirmware_version'' []) \<noteq> tv
           then [''fiovb_setenv bootupgrade_available 1''] else []) \<and>
          (files w (version_file (sha256Hash target)) = None \<longrightarrow>
           commands_issued w w' =
           ''fiovb_printenv bootfirmware_version'' #
           (if snd (ex (shell_cmds (effects w)) ''fiovb_printenv bootfirmware_version'' []) \<noteq> []
            then [''fiovb_setenv bootupgrade_available 1''] else []))"
      by (simp only: arm)
  qed
qed

theorem installNotify_failure_policy_witness:
  "rollback_mode (config_m (example_bootloader kUbootMasked True)) = kUbootMasked \<and>
   fst (answers 1 ''2.0'' (shell_cmds (effects (example_world False [])))
          ''fw_printenv bootfirmware_version'' []) \<noteq> 0 \<and>
   fst (answers 1 ''2.0''
          (shell_cmds (effects (example_world False [])) @ [''fw_printenv bootfirmware_version''])
          ''fw_setenv bootupgrade_available 1'' ''2.0'') \<noteq> 0 \<and>
   files (example_world False []) (version_file (sha256Hash example_target)) = None \<and>
   (\<exists>w'. installNotify (example_bootloader kUbootMasked True) (answers 1 ''2.0'') example_target
            (example_world False []) = Inr w' \<and>
      (Warning, ''Failed getting bootfirmware_version for u-boot'') \<in> set (logs w') \<and>
      (Warning, ''Failed setting bootupgrade_available for u-boot'') \<in> set (logs w') \<and>
      commands_issued (example_world False []) w' =
        [''fw_printenv bootfirmware_version'', ''fw_setenv bootupgrade_available 1'']) \<and>
   rollback_mode (config_m (example_bootloader kFioVB True)) = kFioVB \<and>
   (\<exists>w'. installNotify (example_bootloader kFioVB True) (answers 1 ''2.0'') example_target
            (example_world False []) = Inr w' \<and>
      (Warning, ''Failed getting bootfirmware_version for u-boot'') \<in> set (logs w') \<and>
      (Warning, ''Failed to set bootupgrade_available'') \<in> set (logs w') \<and>
      commands_issued (example_world False []) w' =
        [''fiovb_printenv bootfirmware_version'', ''fiovb_setenv bootupgrade_available 1'']) \<and>
   fst (answers 1 [] (shell_cmds (effects (example_world False [])))
          ''fiovb_printenv bootfirmware_version'' []) \<noteq> 0 \<and>
   (\<exists>w'. installNotify (example_bootloader kFioVB True) (answers 1 []) example_target
            (example_world False []) = Inr w' \<and>
      (Warning, ''Failed getting bootfirmware_version for u-boot'') \<in> set (logs w') \<and>
      commands_issued (example_world False []) w' = [''fiovb_printenv bootfirmware_version''])"
proof -
  let ?w = "example_world False []"
  have m: "rollback_mode (config_m (example_bootloader kUbootMasked True)) = kUbootMasked"
    and f: "rollback_mode (config_m (example_bootloader kFioVB True)) = kFioVB"
    by (simp_all add: example_defs)
  have nf: "files ?w (version_file (sha256Hash example_target)) = None"
    by (simp add: example_world_def)
  have tv: "target_firmware_ver (read_stream (version_file (sha256Hash example_target)) ?w) = []"
    using nf by (simp add: read_stream_def target_firmware_ver_def version_flag_def)
  have s1: "fst (answers 1 ''2.0'' (shell_cmds (effects ?w)) ''fw_printenv bootfirmware_version'' []) \<noteq> 0"
    and s1': "fst (answers 1 ''2.0'' (shell_cmds (effects ?w) @ [''fw_printenv bootfirmware_version''])
          ''fw_setenv bootupgrade_available 1'' ''2.0'') \<noteq> 0"
    and s2: "fst (answers 1 [] (shell_cmds (effects ?w)) ''fiovb_printenv bootfirmware_version'' []) \<noteq> 0"
    by (simp_all add: answers_def)
  from installNotify_failure_policy [where b = "example_bootloader kUbootMasked True"
        and ex = "answers 1 ''2.0''" and target = example_target and w = ?w] m nf tv
  have a1: "\<exists>w'. installNotify (example_bootloader kUbootMasked True) (answers 1 ''2.0'') example_target
            ?w = Inr w' \<and>
      (Warning, ''Failed getting bootfirmware_version for u-boot'') \<in> set (logs w') \<and>
      (Warning, ''Failed setting bootupgrade_available for u-boot'') \<in> set (logs w') \<and>
      commands_issued ?w w' =
        [''fw_printenv bootfirmware_version'', ''fw_setenv bootupgrade_available 1'']"
    by (auto simp add: answers_def)
  from installNotify_failure_policy [where b = "example_bootloader kFioVB True"
        and ex = "answers 1 ''2.0''" and target = example_target and w = ?w] f nf tv
  have a2: "\<exists>w'. installNotify (example_bootloader kFioVB True) (answers 1 ''2.0'') example_target
            ?w = Inr w' \<and>
      (Warning, ''Failed getting bootfirmware_version for u-boot'') \<in> set (logs w') \<and>
      (Warning, ''Failed to set bootupgrade_available'') \<in> set (logs w') \<and>
      commands_issued ?w w' =
        [''fiovb_printenv bootfirmware_version'', ''fiovb_setenv bootupgrade_available 1'']"
    by (auto simp add: answers_def)
  from installNotify_failure_policy [where b = "example_bootloader kFioVB True"
        and ex = "answers 1 []" and target = example_target and w = ?w] f nf tv
  have a3: "\<exists>w'. installNotify (example_bootloader kFioVB True) (answers 1 []) example_target
            ?w = Inr w' \<and>
      (Warning, ''Failed getting bootfirmware_version for u-boot'') \<in> set (logs w') \<and>
      commands_issued ?w w' = [''fiovb_printenv bootfirmware_version'']"
    by (auto simp add: answers_def)
  from m s1 s1' nf a1 f a2 s2 a3 show ?thesis by blast
qed

text \<open>
  The claim as it was stated fails: with the version file missing and a bootloader that
  reports version \<open>2.0\<close>, the command that sets \<open>bootupgrade_available\<close> is issued; and
  with a version file holding \<open>bootfirmware_version=2.1\<close> and a \<open>printenv\<close> that fails
  without output, it is issued too, so a failure is not taken as "no update needed".
\<close>

theorem missing_version_file_counterexample:
  "files (example_world False []) (version_file (sha256Hash example_target)) = None \<and>
   outcome (example_world False [])
     (installNotify (example_bootloader kUbootMasked True) (answers 0 ''2.0'') example_target
        (example_world False []))
     = Inr [''fw_printenv bootfirmware_version'', ''fw_setenv bootupgrade_available 1''] \<and>
   outcome (example_world False [(version_file ''a1b2'', ''bootfirmware_version=2.1'')])
     (installNotify (example_bootloader kFioVB True) (answers 1 []) example_target
        (example_world False [(version_file ''a1b2'', ''bootfirmware_version=2.1'')]))
     = Inr [''fiovb_printenv bootfirmware_version'', ''fiovb_setenv bootupgrade_available 1'']"
  by (simp add: installNotify_eq Let_def outcome_def commands_issued_def
        effects_firmware_arm world_simps example_defs read_stream_def version_file_def
        target_firmware_ver_def version_flag_def str_erase_def)

text \<open>
  Claim C5, as amended. For the masked U-Boot and the FioVB backend \<open>installNotify\<close>
  reads the version file of the target, removes from its content the first occurrence
  of the key \<open>bootfirmware_version\<close> together with the one character that follows it,
  wherever in the content the key occurs (so a leading \<open>bootfirmware_version=\<close> is
  stripped, and a content without the key is left as it is), reads the current version
  through the executor, and issues the set-\<open>bootupgrade_available\<close> command once after
  the \<open>printenv\<close> command if the two strings differ and not at all if they are equal.
\<close>

theorem installNotify_version_check:
  "(rollback_mode (config_m b) = kUbootMasked \<longrightarrow>
      outcome w (installNotify b ex target w) =
        Inr (''fw_printenv bootfirmware_version'' #
          (if snd (ex (shell_cmds (effects w)) ''fw_printenv bootfirmware_version'' [])
                \<noteq> target_firmware_ver (read_stream (version_file (sha256Hash target)) w)
           then [''fw_setenv bootupgrade_available 1''] else []))) \<and>
   (rollback_mode (config_m b) = kFioVB \<longrightarrow>
      outcome w (installNotify b ex target w) =
        Inr (''fiovb_printenv bootfirmware_version'' #
          (if snd (ex (shell_cmds (effects w)) ''fiovb_printenv bootfirmware_version'' [])
                \<noteq> target_firmware_ver (read_stream (version_file (sha256Hash target)) w)
           then [''fiovb_setenv bootupgrade_available 1''] else []))) \<and>
   target_firmware_ver (''bootfirmware_version='' @ v) = v \<and>
   ((\<forall>j<length pre. take (length version_flag) (drop j (pre @ version_flag @ rest)) \<noteq> version_flag) \<longrightarrow>
      target_firmware_ver (pre @ version_flag @ rest) = pre @ drop 1 rest) \<and>
   ((\<forall>j\<le>length content. take (length version_flag) (drop j content) \<noteq> version_flag) \<longrightarrow>
      target_firmware_ver content = content)"
  using outcome_installNotify_masked [of b w ex target] outcome_installNotify_fiovb [of b w ex target]
    target_firmware_ver_leading [of v] target_firmware_ver_first [of pre rest]
    target_firmware_ver_absent [of content]
  by blast

theorem installNotify_version_check_witness:
  "rollback_mode (config_m (example_bootloader kUbootMasked True)) = kUbootMasked \<and>
   outcome (example_world False [(version_file ''a1b2'', ''bootfirmware_version=2.1'')])
     (installNotify (example_bootloader kUbootMasked True) (answers 0 ''2.0'') example_target
        (example_world False [(version_file ''a1b2'', ''bootfirmware_version=2.1'')]))
     = Inr [''fw_printenv bootfirmware_version'', ''fw_setenv bootupgrade_available 1''] \<and>
   outcome (example_world False [(version_file ''a1b2'', ''bootfirmware_version=2.1'')])
     (installNotify (example_bootloader kUbootMasked True) (answers 0 ''2.1'') example_target
        (example_world False [(version_file ''a1b2'', ''bootfirmware_version=2.1'')]))
     = Inr [''fw_printenv bootfirmware_version''] \<and>
   rollback_mode (config_m (example_bootloader kFioVB True)) = kFioVB \<and>
   outcome (example_world False [(version_file ''a1b2'', ''bootfirmware_version=2.1'')])
     (installNotify (example_bootloader kFioVB True) (answers 0 ''2.0'') example_target
        (example_world False [(version_file ''a1b2'', ''bootfirmware_version=2.1'')]))
     = Inr [''fiovb_printenv bootfirmware_version'', ''fiovb_setenv bootupgrade_available 1''] \<and>
   outcome (example_world False [(version_file ''a1b2'', ''bootfirmware_version=2.1'')])
     (installNotify (example_bootloader kFioVB True) (answers 0 ''2.1'') example_target
        (example_world False [(version_file ''a1b2'', ''bootfirmware_version=2.1'')]))
     = Inr [''fiovb_printenv bootfirmware_version''] \<and>
   target_firmware_ver (''fw: '' @ version_flag @ ''=2.1'') = ''fw: 2.1'' \<and>
   target_firmware_ver ''2.1'' = ''2.1''"
proof -
  let ?w = "example_world False [(version_file ''a1b2'', ''bootfirmware_version=2.1'')]"
  have tv: "target_firmware_ver (read_stream (version_file (sha256Hash example_target)) ?w) = ''2.1''"
    using installNotify_version_check [where v = "''2.1''"] by (simp add: example_defs read_stream_def)
  have m: "rollback_mode (config_m (example_bootloader kUbootMasked True)) = kUbootMasked"
    and f: "rollback_mode (config_m (example_bootloader kFioVB True)) = kFioVB"
    by (simp_all add: example_defs)
  have h1: "\<forall>j<length ''fw: ''. take (length version_flag) (drop j (''fw: '' @ version_flag @ ''=2.1'')) \<noteq> version_flag"
  proof -
    have "str_find (''fw: '' @ version_flag @ ''=2.1'') version_flag = Some (length ''fw: '')"
      by (simp add: version_flag_def)
    from str_find_Some [OF this] show ?thesis by (simp add: starts_with_iff)
  qed
  have h2: "\<forall>j\<le>length ''2.1''. take (length version_flag) (drop j ''2.1'') \<noteq> version_flag"
  proof -
    have "str_find ''2.1'' version_flag = None"
      by (simp add: version_flag_def)
    from str_find_None [OF this] show ?thesis by (simp add: starts_with_iff)
  qed
  have a1: "outcome ?w (installNotify (example_bootloader kUbootMasked True) (answers 0 ''2.0'') example_target ?w)
     = Inr [''fw_printenv bootfirmware_version'', ''fw_setenv bootupgrade_available 1'']"
    using installNotify_version_check [where b = "example_bootloader kUbootMasked True" and w = ?w and ex = "answers 0 ''2.0''"
        and target = example_target] m tv
    by (simp add: answers_def)
  have a2: "outcome ?w (installNotify (example_bootloader kUbootMasked True) (answers 0 ''2.1'') example_target ?w)
     = Inr [''fw_printenv bootfirmware_version'']"
    using installNotify_version_check [where b = "example_bootloader kUbootMasked True" and w = ?w and ex = "answers 0 ''2.1''"
        and target = example_target] m tv
    by (simp add: answers_def)
  have a3: "outcome ?w (installNotify (example_bootloader kFioVB True) (answers 0 ''2.0'') example_target ?w)
     = Inr [''fiovb_printenv bootfirmware_version'', ''fiovb_setenv bootupgrade_available 1'']"
    using installNotify_version_check [where b = "example_bootloader kFioVB True" and w = ?w and ex = "answers 0 ''2.0''"
        and target = example_target] f tv
    by (simp add: answers_def)
  have a4: "outcome ?w (installNotify (example_bootloader kFioVB True) (answers 0 ''2.1'') example_target ?w)
     = Inr [''fiovb_printenv bootfirmware_version'']"
    using installNotify_version_check [where b = "example_bootloader kFioVB True" and w = ?w and ex = "answers 0 ''2.1''"
        and target = example_target] f tv
    by (simp add: answers_def)
  have a5: "target_firmware_ver (''fw: '' @ version_flag @ ''=2.1'') = ''fw: 2.1''"
    using installNotify_version_check [where pre = "''fw: ''" and rest = "''=2.1''"] h1 by simp
  have a6: "target_firmware_ver ''2.1'' = ''2.1''"
    using installNotify_version_check [where content = "''2.1''"] h2 by simp
  from m f a1 a2 a3 a4 a5 a6 show ?thesis by blast
qed

text \<open>
  The claim as it was stated, with only a leading \<open>bootfirmware_version=\<close> stripped,
  fails on a version file in which the key is not at the start. For the content
  \<open>fw: bootfirmware_version=2.1\<close> the specification's target version is the content
  itself; the code compares with \<open>fw: 2.1\<close>. So when the executor reports the very
  content of the file the command is issued although the two versions of the
  specification are equal, and when it reports \<open>fw: 2.1\<close> no command is issued although
  they differ.
\<close>

theorem leading_prefix_counterexample:
  "spec_target_version ''fw: bootfirmware_version=2.1'' = ''fw: bootfirmware_version=2.1'' \<and>
   outcome (example_world False [(version_file ''a1b2'', ''fw: bootfirmware_version=2.1'')])
     (installNotify (example_bootloader kUbootMasked True) (answers 0 ''fw: bootfirmware_version=2.1'')
        example_target
        (example_world False [(version_file ''a1b2'', ''fw: bootfirmware_version=2.1'')]))
     = Inr [''fw_printenv bootfirmware_version'', ''fw_setenv bootupgrade_available 1''] \<and>
   spec_target_version ''fw: bootfirmware_version=2.1'' \<noteq> ''fw: 2.1'' \<and>
   outcome (example_world False [(version_file ''a1b2'', ''fw: bootfirmware_version=2.1'')])
     (installNotify (example_bootloader kUbootMasked True) (answers 0 ''fw: 2.1'')
        example_target
        (example_world False [(version_file ''a1b2'', ''fw: bootfirmware_version=2.1'')]))
     = Inr [''fw_printenv bootfirmware_version'']"
  by (simp add: spec_target_version_def installNotify_eq Let_def outcome_def commands_issued_def
        effects_firmware_arm world_simps example_defs read_stream_def version_file_def
        target_firmware_ver_def version_flag_def str_erase_def)

section \<open>Reboot sentinel and durable flag\<close>

text \<open>
  Claim C1. With reboot detection supported, \<open>rebootFlagSet\<close> writes the sentinel
  file and then sets the durable flag, and \<open>rebootFlagClear\<close> clears the durable flag
  and then removes the sentinel. A fault after the first write and before the second
  (\<open>k = 1\<close>, the only \<open>k\<close> with \<open>0 < k < 2\<close>) leaves, in \<open>rebootFlagSet\<close>, the sentinel in
  place and the flag as it was, and in \<open>rebootFlagClear\<close> the flag cleared and the files
  as they were. In both states \<open>rebootDetected\<close> reports false, which is what it
  reports once the call has completed: the state "flag set, no sentinel", the only
  one read as a detected reboot, does not arise, and a false report is the right one
  since either the sentinel is there (no boundary was crossed) or the flag is clear
  (nothing is pending).
\<close>

theorem reboot_flag_crash_safety:
  "reboot_detect_supported_m b \<and> 0 < k \<and> k < 2 \<longrightarrow>
     effects (rebootFlagSet b w) = effects w @ [WriteFile (reboot_sentinel_m b) [], StoreNeedReboot] \<and>
     effects (fault_after k (rebootFlagSet_writes b) w) = effects w @ [WriteFile (reboot_sentinel_m b) []] \<and>
     fs_exists (reboot_sentinel_m b) (fault_after k (rebootFlagSet_writes b) w) \<and>
     need_reboot (fault_after k (rebootFlagSet_writes b) w) = need_reboot w \<and>
     \<not> rebootDetected b (fault_after k (rebootFlagSet_writes b) w) \<and>
     rebootDetected b (fault_after k (rebootFlagSet_writes b) w) = rebootDetected b (rebootFlagSet b w) \<and>
     effects (rebootFlagClear b w) = effects w @ [ClearNeedReboot, RemoveFile (reboot_sentinel_m b)] \<and>
     effects (fault_after k (rebootFlagClear_writes b) w) = effects w @ [ClearNeedReboot] \<and>
     \<not> need_reboot (fault_after k (rebootFlagClear_writes b) w) \<and>
     files (fault_after k (rebootFlagClear_writes b) w) = files w \<and>
     \<not> rebootDetected b (fault_after k (rebootFlagClear_writes b) w) \<and>
     rebootDetected b (fault_after k (rebootFlagClear_writes b) w) = rebootDetected b (rebootFlagClear b w)"
  (is "?fault \<longrightarrow> ?safe")
proof
  assume a: ?fault
  then have s: "fault_after k (rebootFlagSet_writes b) w = writeFile (reboot_sentinel_m b) [] w"
    and c: "fault_after k (rebootFlagClear_writes b) w = clearNeedReboot w"
    by (simp_all add: rebootFlagSet_writes_def rebootFlagClear_writes_def fault_after_one)
  from a show ?safe
    unfolding s c
    by (simp add: rebootFlagSet_eq rebootFlagClear_eq rebootDetected_eq store_simps)
qed

theorem reboot_flag_crash_safety_witness:
  "reboot_detect_supported_m (example_bootloader kUbootMasked True) \<and> (0::nat) < 1 \<and> (1::nat) < 2 \<and>
   effects (rebootFlagSet (example_bootloader kUbootMasked True) (example_world False []))
     = [WriteFile ''/var/run/aktualizr-session/need_reboot'' [], StoreNeedReboot] \<and>
   \<not> rebootDetected (example_bootloader kUbootMasked True)
       (fault_after 1 (rebootFlagSet_writes (example_bootloader kUbootMasked True)) (example_world False [])) \<and>
   \<not> rebootDetected (example_bootloader kUbootMasked True)
       (fault_after 1 (rebootFlagClear_writes (example_bootloader kUbootMasked True)) (example_world True []))"
  using reboot_flag_crash_safety [where b = "example_bootloader kUbootMasked True" and k = 1 and w = "example_world False []"]
    reboot_flag_crash_safety [where b = "example_bootloader kUbootMasked True" and k = 1 and w = "example_world True []"]
  by (simp add: example_defs)

text \<open>
  Claim C2, as amended. \<open>rebootDetected\<close> returns true if and only if reboot detection
  is supported, the durable flag is true and the sentinel file is absent. For every
  state it returns false right after \<open>rebootFlagSet\<close> and right after
  \<open>rebootFlagClear\<close>. For every state in which reboot detection is supported, it
  returns true after \<open>rebootFlagSet\<close> followed by the removal of the sentinel alone
  (which leaves the flag true), and after \<open>rebootFlagClear\<close> it returns false and the
  durable flag reads false.
\<close>

theorem reboot_detected_round_trip:
  "rebootDetected b w =
     (reboot_detect_supported_m b \<and> need_reboot w \<and> \<not> fs_exists (reboot_sentinel_m b) w) \<and>
   \<not> rebootDetected b (rebootFlagSet b w) \<and>
   \<not> rebootDetected b (rebootFlagClear b w) \<and>
   (reboot_detect_supported_m b \<longrightarrow>
      rebootDetected b (fs_remove (reboot_sentinel_m b) (rebootFlagSet b w)) \<and>
      need_reboot (fs_remove (reboot_sentinel_m b) (rebootFlagSet b w)) \<and>
      \<not> rebootDetected b (rebootFlagClear b (fs_remove (reboot_sentinel_m b) (rebootFlagSet b w))) \<and>
      \<not> need_reboot (rebootFlagClear b (fs_remove (reboot_sentinel_m b) (rebootFlagSet b w))) \<and>
      \<not> need_reboot (rebootFlagClear b w))"
  by (simp add: rebootFlagSet_eq rebootFlagClear_eq rebootDetected_eq store_simps)

theorem reboot_detected_round_trip_witness:
  "reboot_detect_supported_m (example_bootloader kUbootMasked True) \<and>
   \<not> rebootDetected (example_bootloader kUbootMasked True)
       (rebootFlagSet (example_bootloader kUbootMasked True) (example_world False [])) \<and>
   rebootDetected (example_bootloader kUbootMasked True)
     (fs_remove (reboot_sentinel_m (example_bootloader kUbootMasked True))
        (rebootFlagSet (example_bootloader kUbootMasked True) (example_world False []))) \<and>
   \<not> need_reboot (rebootFlagClear (example_bootloader kUbootMasked True)
       (fs_remove (reboot_sentinel_m (example_bootloader kUbootMasked True))
          (rebootFlagSet (example_bootloader kUbootMasked True) (example_world False []))))"
  using reboot_detected_round_trip [where b = "example_bootloader kUbootMasked True" and w = "example_world False []"]
  by (simp add: example_defs)

text \<open>
  The claim as it was stated, for every state, fails where reboot detection is not
  supported: \<open>rebootFlagSet\<close> and \<open>rebootFlagClear\<close> return at their guard, so after
  the removal of the sentinel \<open>rebootDetected\<close> still returns false, and after
  \<open>rebootFlagClear\<close> a durable flag that was true still reads true.
\<close>

theorem unsupported_round_trip_counterexample:
  "\<not> rebootDetected (example_bootloader kUbootMasked False)
       (fs_remove (reboot_sentinel_m (example_bootloader kUbootMasked False))
          (rebootFlagSet (example_bootloader kUbootMasked False) (example_world True []))) \<and>
   need_reboot (rebootFlagClear (example_bootloader kUbootMasked False) (example_world True []))"
  by (simp add: rebootFlagSet_eq rebootFlagClear_eq rebootDetected_eq store_simps example_defs)

text \<open>
  Claim C6. When reboot detection is not supported (the capability flag is false, as
  the constructor leaves it when the sentinel directory could not be created
  securely), \<open>rebootFlagSet\<close> and
  \<open>rebootFlagClear\<close> leave the world as it is (the durable flag, the files, and no
  storage call or filesystem write among the effects), and \<open>rebootDetected\<close> returns
  false, whatever the flag and the sentinel are.
\<close>

theorem unsupported_detection_noop:
  "\<not> reboot_detect_supported_m b \<longrightarrow>
     rebootFlagSet b w = w \<and> rebootFlagClear b w = w \<and> \<not> rebootDetected b w"
  by (simp add: rebootFlagSet_eq rebootFlagClear_eq rebootDetected_eq)

theorem unsupported_detection_noop_witness:
  "\<not> reboot_detect_supported_m (example_bootloader kUbootMasked False) \<and>
   rebootFlagSet (example_bootloader kUbootMasked False) (example_world True []) = example_world True [] \<and>
   rebootFlagClear (example_bootloader kUbootMasked False) (example_world True []) = example_world True [] \<and>
   \<not> rebootDetected (example_bootloader kUbootMasked False) (example_world True [])"
  using unsupported_detection_noop [where b = "example_bootloader kUbootMasked False" and w = "example_world True []"]
  by (simp add: example_defs)

section \<open>Reboot execution\<close>

text \<open>
  Claim C8. \<open>reboot\<close> with \<open>fake_reboot\<close> true returns normally, removes the sentinel file
  and nothing else, leaves the durable flag unchanged and has the removal as its only
  effect: no privilege change, no sync and no reboot command, for every prior state.
\<close>

theorem fake_reboot_frame:
  "\<exists>w'. reboot sys b True w = Inr w' \<and>
     files w' = (files w)(reboot_sentinel_m b := None) \<and>
     \<not> fs_exists (reboot_sentinel_m b) w' \<and>
     need_reboot w' = need_reboot w \<and>
     effects w' = effects w @ [RemoveFile (reboot_sentinel_m b)] \<and>
     logs w' = logs w"
  by (simp add: reboot_def store_simps)

text \<open>
  Claim C9. \<open>reboot\<close> with \<open>fake_reboot\<close> false: if \<open>setuid(0)\<close> fails it logs an error
  and returns normally with no sync and no reboot command; if it succeeds, the call
  syncs, then runs the configured reboot command, logs an error if the command's exit
  status is not zero, and returns normally either way.
\<close>

theorem real_reboot_policy:
  "(setuid sys 0 \<noteq> 0 \<longrightarrow>
      (\<exists>w'. reboot sys b False w = Inr w' \<and>
         effects w' = effects w @ [SetUid 0] \<and>
         logs w' = logs w @
           [(Error, ''Failed to set/verify a root user so cannot reboot system programmatically'')] \<and>
         need_reboot w' = need_reboot w \<and> files w' = files w)) \<and>
   (setuid sys 0 = 0 \<longrightarrow>
      (\<exists>w'. reboot sys b False w = Inr w' \<and>
         effects w' = effects w @ [SetUid 0, Sync, System (reboot_command_m b)] \<and>
         logs w' = logs w @
           (if system sys (reboot_command_m b) \<noteq> 0
            then [(Error, ''Failed to execute the reboot command: '' @ reboot_command_m b)] else []) \<and>
         need_reboot w' = need_reboot w \<and> files w' = files w))"
  by (simp add: reboot_def Let_def world_simps)

theorem real_reboot_policy_witness:
  "setuid (example_os (- 1) 0) 0 \<noteq> 0 \<and>
   (\<exists>w'. reboot (example_os (- 1) 0) (example_bootloader kUbootMasked True) False (example_world True []) = Inr w' \<and>
      effects w' = [SetUid 0]) \<and>
   setuid (example_os 0 1) 0 = 0 \<and>
   (\<exists>w'. reboot (example_os 0 1) (example_bootloader kUbootMasked True) False (example_world True []) = Inr w' \<and>
      effects w' = [SetUid 0, Sync, System ''/sbin/reboot''] \<and>
      logs w' = [(Error, ''Failed to execute the reboot command: /sbin/reboot'')])"
proof -
  have h1: "setuid (example_os (- 1) 0) 0 \<noteq> 0" and h2: "setuid (example_os 0 1) 0 = 0"
    by (simp_all add: example_os_def)
  from real_reboot_policy [where sys = "example_os (- 1) 0" and b = "example_bootloader kUbootMasked True"
      and w = "example_world True []"] h1
  have a1: "\<exists>w'. reboot (example_os (- 1) 0) (example_bootloader kUbootMasked True) False (example_world True []) = Inr w' \<and>
      effects w' = [SetUid 0]"
    by (auto simp add: example_world_def)
  from real_reboot_policy [where sys = "example_os 0 1" and b = "example_bootloader kUbootMasked True"
      and w = "example_world True []"] h2
  have a2: "\<exists>w'. reboot (example_os 0 1) (example_bootloader kUbootMasked True) False (example_world True []) = Inr w' \<and>
      effects w' = [SetUid 0, Sync, System ''/sbin/reboot''] \<and>
      logs w' = [(Error, ''Failed to execute the reboot command: /sbin/reboot'')]"
    by (auto simp add: example_defs)
  from h1 a1 h2 a2 show ?thesis by blast
qed

text \<open>
  Claim C10. \<open>reboot\<close> with \<open>fake_reboot\<close> true removes an existing sentinel file also
  when reboot detection is not supported, where \<open>rebootFlagSet\<close> and \<open>rebootFlagClear\<close>
  leave the sentinel in place and \<open>rebootDetected\<close> returns false: \<open>reboot\<close> does not
  look at the capability flag, and does the same with the flag set as with it clear.
\<close>

theorem fake_reboot_ignores_capability:
  "\<not> reboot_detect_supported_m b \<and> fs_exists (reboot_sentinel_m b) w \<longrightarrow>
     (\<exists>w'. reboot sys b True w = Inr w' \<and> \<not> fs_exists (reboot_sentinel_m b) w') \<and>
     fs_exists (reboot_sentinel_m b) (rebootFlagSet b w) \<and>
     fs_exists (reboot_sentinel_m b) (rebootFlagClear b w) \<and>
     \<not> rebootDetected b w \<and>
     reboot sys (b\<lparr>reboot_detect_supported_m := True\<rparr>) True w = reboot sys b True w"
  by (simp add: reboot_def rebootFlagSet_eq rebootFlagClear_eq rebootDetected_eq store_simps)

theorem fake_reboot_ignores_capability_witness:
  "\<not> reboot_detect_supported_m (example_bootloader kUbootMasked False) \<and>
   fs_exists (reboot_sentinel_m (example_bootloader kUbootMasked False))
     (example_world True [(''/var/run/aktualizr-session/need_reboot'', [])]) \<and>
   (\<exists>w'. reboot (example_os 0 0) (example_bootloader kUbootMasked False) True
            (example_world True [(''/var/run/aktualizr-session/need_reboot'', [])]) = Inr w' \<and>
      \<not> fs_exists (reboot_sentinel_m (example_bootloader kUbootMasked False)) w') \<and>
   fs_exists (reboot_sentinel_m (example_bootloader kUbootMasked False))
     (rebootFlagClear (example_bootloader kUbootMasked False)
        (example_world True [(''/var/run/aktualizr-session/need_reboot'', [])]))"
proof -
  have h: "\<not> reboot_detect_supported_m (example_bootloader kUbootMasked False) \<and>
   fs_exists (reboot_sentinel_m (example_bootloader kUbootMasked False))
     (example_world True [(''/var/run/aktualizr-session/need_reboot'', [])])"
    by (simp add: example_defs fs_exists_def)
  from fake_reboot_ignores_capability [where b = "example_bootloader kUbootMasked False" and sys = "example_os 0 0"
      and w = "example_world True [(''/var/run/aktualizr-session/need_reboot'', [])]"] h
  show ?thesis by blast
qed

end
